theory Spec2Isabelle
  imports Main "HOL-Library.Multiset"
begin

section \<open>SoundHaven server: the HTTP handlers of src/index.ts over an explicit store\<close>

text \<open>
  Every handler of \<^verbatim>\<open>src/index.ts\<close> that a property below is about is a function from the
  request, the environment and the relational store to the response, the store afterwards
  and the upstream calls made, in the order of the source. A \<^verbatim>\<open>fetch\<close> that rejects, a
  \<^verbatim>\<open>.json()\<close> that throws and a Prisma call that throws are values: the handler's
  \<^verbatim>\<open>catch\<close> block turns them into the 500 answer of that handler.

  Upstream answers have the shapes declared in \<^verbatim>\<open>src/types/spotify.d.ts\<close>. A field is
  optional here where the declaration makes it optional (\<^verbatim>\<open>refresh_token?\<close>) or where the
  code tests it for absence (\<^verbatim>\<open>!data.access_token\<close>); \<^verbatim>\<open>expires_in\<close> is handed
  through untouched, so an integer stands for the JavaScript number.
\<close>

subsection \<open>JavaScript strings that may be undefined\<close>

definition falsy :: "string option \<Rightarrow> bool" where
  \<comment> \<open>\<^verbatim>\<open>!s\<close> for a value that is a string or undefined: undefined and the empty string.\<close>
  "falsy s = (case s of None \<Rightarrow> True | Some v \<Rightarrow> v = [])"

definition js_string :: "string option \<Rightarrow> string" where
  \<comment> \<open>\<^verbatim>\<open>String(s)\<close>, as a template literal, URLSearchParams and res.cookie apply it.\<close>
  "js_string s = (case s of None \<Rightarrow> ''undefined'' | Some v \<Rightarrow> v)"

fun replace_first :: "string \<Rightarrow> string \<Rightarrow> string \<Rightarrow> string" where
  \<comment> \<open>\<^verbatim>\<open>s.replace(pat, rep)\<close> with a string pattern: the first occurrence only.\<close>
  "replace_first pat rep [] = (if pat = [] then rep else [])"
| "replace_first pat rep (c # cs) =
     (if take (length pat) (c # cs) = pat then rep @ drop (length pat) (c # cs)
      else c # replace_first pat rep cs)"

definition bearer_token :: "string \<Rightarrow> string" where
  \<comment> \<open>\<^verbatim>\<open>auth.replace("Bearer ", "")\<close>\<close>
  "bearer_token auth = replace_first ''Bearer '' [] auth"

subsection \<open>Configuration, responses, upstream\<close>

record config =
  SPOTIFY_CLIENT_ID :: string
  SPOTIFY_CLIENT_SECRET :: string
  SPOTIFY_REDIRECT_URI :: string
  CLIENT_URL :: string
  production :: bool  \<comment> \<open>\<^verbatim>\<open>process.env.NODE_ENV === "production"\<close>\<close>

record cookie =
  ck_name :: string
  ck_value :: string
  ck_httpOnly :: bool
  ck_sameSite :: string
  ck_secure :: bool
  ck_maxAge :: int

datatype cookie_op = SetCookie cookie | ClearCookie string

record SpotifyTokenResponse =
  access_token :: "string option"
  token_type :: string
  expires_in :: int
  refresh_token :: "string option"
  scope :: string

record SpotifyUser =
  su_id :: string
  su_display_name :: string

record SpotifyPlaylist =
  sp_id :: string
  sp_name :: string

record SpotifyPlaylistsResponse =
  items :: "SpotifyPlaylist list"
  next_url :: "string option"  \<comment> \<open>\<^verbatim>\<open>next: string | null\<close>\<close>

datatype 'a fetched =
    Threw  \<comment> \<open>the fetch rejected or the body was not JSON\<close>
  | Resp nat 'a  \<comment> \<open>HTTP status and the parsed body\<close>

definition ok :: "nat \<Rightarrow> bool" where
  \<comment> \<open>\<^verbatim>\<open>res.ok\<close>\<close>
  "ok s = (200 \<le> s \<and> s \<le> 299)"

datatype token_request =
    AuthorizationCode string string string string
      \<comment> \<open>grant\_type=authorization\_code: code, redirect\_uri, client\_id, client\_secret\<close>
  | RefreshToken string string string
      \<comment> \<open>grant\_type=refresh\_token: refresh\_token, client\_id, client\_secret\<close>

record new_playlist =
  np_name :: string
  np_description :: string
  np_public :: bool

datatype upstream_call =
    PostToken token_request  \<comment> \<open>POST https://accounts.spotify.com/api/token\<close>
  | GetMe string  \<comment> \<open>GET /v1/me with the bearer token\<close>
  | GetPlaylist string string  \<comment> \<open>GET /v1/playlists/\{id\}: token, playlist id\<close>
  | GetUrl string string  \<comment> \<open>GET of a playlist page: token, url\<close>
  | PostPlaylist string string new_playlist  \<comment> \<open>POST /v1/users/\{id\}/playlists: token, user id, body\<close>

record upstream =
  post_token :: "token_request \<Rightarrow> SpotifyTokenResponse fetched"
  get_me :: "string \<Rightarrow> SpotifyUser fetched"
  get_playlist :: "string \<Rightarrow> string \<Rightarrow> unit fetched"
  get_url :: "string \<Rightarrow> string \<Rightarrow> SpotifyPlaylistsResponse fetched"
  post_playlist :: "string \<Rightarrow> string \<Rightarrow> new_playlist \<Rightarrow> SpotifyPlaylist fetched"

subsection \<open>The relational store (prisma/schema.prisma and the migrations)\<close>

record DiscoveryLog =
  dl_id :: string
  dl_userId :: string
  dl_cardTitle :: string
  dl_trackUri :: string
  dl_added :: bool
  dl_createdAt :: int

record UserPlaylist =
  up_id :: string
  up_userId :: string
  up_playlistId :: string
  up_createdAt :: int

record Card =
  c_id :: int
  c_title :: string
  c_artist :: string
  c_uri :: string
  c_img :: string
  c_cover :: string
  c_description :: string

record DailyCard =
  dc_id :: int
  dc_userId :: string
  dc_cardId :: int
  dc_date :: int

datatype payload =
    Text string  \<comment> \<open>\<^verbatim>\<open>res.send\<close>, \<^verbatim>\<open>res.sendStatus\<close>\<close>
  | Redirect string  \<comment> \<open>\<^verbatim>\<open>res.redirect(url)\<close>\<close>
  | ErrorJson string  \<comment> \<open>\<^verbatim>\<open>{ error }\<close>\<close>
  | TokenDataJson SpotifyTokenResponse  \<comment> \<open>the upstream body, verbatim\<close>
  | AccessJson string int  \<comment> \<open>\<^verbatim>\<open>{ access_token, expires_in }\<close>\<close>
  | PlaylistIdJson string  \<comment> \<open>\<^verbatim>\<open>{ playlist_id }\<close>\<close>
  | ExistsJson bool  \<comment> \<open>\<^verbatim>\<open>{ exists }\<close>\<close>
  | MessageIdJson string string  \<comment> \<open>\<^verbatim>\<open>{ message, id }\<close>\<close>
  | MessageJson string  \<comment> \<open>\<^verbatim>\<open>{ message }\<close>\<close>
  | LogJson DiscoveryLog
  | CardsJson "Card list"
  | SuccessJson  \<comment> \<open>\<^verbatim>\<open>{ success: true }\<close>\<close>

record response =
  status :: nat
  payload :: payload
  cookies :: "cookie_op list"

definition json :: "nat \<Rightarrow> payload \<Rightarrow> response" where
  "json s p = \<lparr>status = s, payload = p, cookies = []\<rparr>"

subsection \<open>GET /api/auth/callback and GET /api/auth/refresh\<close>

record callback_request =
  q_code :: "string option"
  q_state :: "string option"
  q_error :: "string option"
  spotify_state :: "string option"  \<comment> \<open>\<^verbatim>\<open>req.cookies.spotify_state\<close>\<close>

definition refresh_token_cookie :: "config \<Rightarrow> string \<Rightarrow> cookie" where
  "refresh_token_cookie cfg v =
     \<lparr>ck_name = ''refresh_token'', ck_value = v, ck_httpOnly = True, ck_sameSite = ''lax'',
      ck_secure = production cfg, ck_maxAge = 30 * 24 * 60 * 60 * 1000\<rparr>"

definition get_auth_callback ::
  "config \<Rightarrow> upstream \<Rightarrow> callback_request \<Rightarrow> response \<times> upstream_call list" where
  "get_auth_callback cfg up req =
     (if q_error req = Some ''access_denied'' then
        (\<lparr>status = 302, payload = Redirect (CLIENT_URL cfg @ ''/login?error=access_denied''),
          cookies = []\<rparr>, [])
      else if falsy (q_state req) \<or> q_state req \<noteq> spotify_state req then
        (\<lparr>status = 400, payload = Text ''State mismatch'', cookies = []\<rparr>, [])
      else
        let cleared = [ClearCookie ''spotify_state''];
            body = AuthorizationCode (js_string (q_code req)) (SPOTIFY_REDIRECT_URI cfg)
                     (SPOTIFY_CLIENT_ID cfg) (SPOTIFY_CLIENT_SECRET cfg)
        in (case post_token up body of
              Threw \<Rightarrow>
                (\<lparr>status = 500, payload = Text ''Error retrieving tokens'', cookies = cleared\<rparr>,
                 [PostToken body])
            | Resp s data \<Rightarrow>
                if \<not> ok s \<or> falsy (access_token data) then
                  (\<lparr>status = 302, payload = Redirect (CLIENT_URL cfg @ ''/login?error=invalid_code''),
                    cookies = cleared\<rparr>, [PostToken body])
                else
                  (\<lparr>status = 302,
                    payload = Redirect (CLIENT_URL cfg @ ''/cards?access_token=''
                                          @ js_string (access_token data)),
                    cookies = cleared @
                      [SetCookie (refresh_token_cookie cfg (js_string (refresh_token data)))]\<rparr>,
                   [PostToken body])))"

definition get_auth_refresh ::
  "config \<Rightarrow> upstream \<Rightarrow> string option \<Rightarrow> response \<times> upstream_call list" where
  \<comment> \<open>The third argument is \<^verbatim>\<open>req.cookies.refresh_token\<close>.\<close>
  "get_auth_refresh cfg up refresh_cookie =
     (if falsy refresh_cookie then
        (\<lparr>status = 401, payload = Text ''Unauthorized'', cookies = []\<rparr>, [])
      else
        let body = RefreshToken (js_string refresh_cookie) (SPOTIFY_CLIENT_ID cfg)
                     (SPOTIFY_CLIENT_SECRET cfg)
        in (case post_token up body of
              Threw \<Rightarrow>
                (\<lparr>status = 500, payload = Text ''Error refreshing token'', cookies = []\<rparr>,
                 [PostToken body])
            | Resp s data \<Rightarrow>
                if \<not> ok s \<or> falsy (access_token data) then
                  (\<lparr>status = 400, payload = TokenDataJson data, cookies = []\<rparr>, [PostToken body])
                else
                  (\<lparr>status = 200,
                    payload = AccessJson (js_string (access_token data)) (expires_in data),
                    cookies =
                      (if \<not> falsy (refresh_token data)
                       then [SetCookie (refresh_token_cookie cfg (js_string (refresh_token data)))]
                       else [])\<rparr>,
                   [PostToken body])))"

subsection \<open>Store operations\<close>

text \<open>
  The tables are lists of rows in insertion order; \<^verbatim>\<open>findFirst\<close> and \<^verbatim>\<open>findMany\<close> without
  \<^verbatim>\<open>orderBy\<close> read them in that order. The store enforces the primary keys, the unique
  indexes and the foreign key of \<^verbatim>\<open>DailyCard.cardId\<close> of the migrations. schema.prisma
  also declares a relation from \<^verbatim>\<open>DiscoveryLog.userId\<close> and \<^verbatim>\<open>DailyCard.userId\<close> to
  \<^verbatim>\<open>UserPlaylist.userId\<close> (\<^verbatim>\<open>onDelete: Cascade\<close>) that no migration of the repository
  creates: \<open>user_fk\<close> says whether the store enforces it, and every property below is
  proved for both values. A Prisma call that throws is \<open>None\<close>.
\<close>

record store =
  discoveryLog :: "DiscoveryLog list"
  userPlaylist :: "UserPlaylist list"
  card_table :: "Card list"
  dailyCard :: "DailyCard list"
  card_seq :: int  \<comment> \<open>next value of the SERIAL of \<^verbatim>\<open>Card.id\<close>\<close>
  dailyCard_seq :: int  \<comment> \<open>next value of the SERIAL of \<^verbatim>\<open>DailyCard.id\<close>\<close>
  user_fk :: bool

record env =
  now :: int  \<comment> \<open>the clock, in milliseconds since the epoch\<close>
  cuid :: string  \<comment> \<open>the id that \<^verbatim>\<open>@default(cuid())\<close> gives the row this request creates\<close>
  shuffle :: "Card list \<Rightarrow> Card list"  \<comment> \<open>\<^verbatim>\<open>.sort(() => 0.5 - Math.random())\<close>\<close>

definition has_user :: "string \<Rightarrow> store \<Rightarrow> bool" where
  "has_user u st = (u \<in> set (map up_userId (userPlaylist st)))"

definition discoveryLog_findFirst :: "string \<Rightarrow> string \<Rightarrow> store \<Rightarrow> DiscoveryLog option" where
  "discoveryLog_findFirst u t st =
     find (\<lambda>e. dl_userId e = u \<and> dl_trackUri e = t) (discoveryLog st)"

definition discoveryLog_create ::
  "env \<Rightarrow> string \<Rightarrow> string \<Rightarrow> string \<Rightarrow> bool \<Rightarrow> store \<Rightarrow> (DiscoveryLog \<times> store) option" where
  "discoveryLog_create env u title t a st =
     (let log = \<lparr>dl_id = cuid env, dl_userId = u, dl_cardTitle = title, dl_trackUri = t,
                 dl_added = a, dl_createdAt = now env\<rparr>
      in if cuid env \<in> set (map dl_id (discoveryLog st)) \<or> (user_fk st \<and> \<not> has_user u st)
         then None
         else Some (log, st\<lparr>discoveryLog := discoveryLog st @ [log]\<rparr>))"

definition mark_row :: "string \<Rightarrow> DiscoveryLog \<Rightarrow> DiscoveryLog" where
  \<comment> \<open>What \<^verbatim>\<open>update({ where: { id: i }, data: { added: true } })\<close> does to a row.\<close>
  "mark_row i e = (if dl_id e = i then e\<lparr>dl_added := True\<rparr> else e)"

definition discoveryLog_update_added :: "string \<Rightarrow> store \<Rightarrow> (DiscoveryLog \<times> store) option" where
  \<comment> \<open>The update and the row it returns; it throws when no row has the id.\<close>
  "discoveryLog_update_added i st =
     (case find (\<lambda>e. dl_id e = i) (discoveryLog st) of
        None \<Rightarrow> None
      | Some e \<Rightarrow>
          Some (mark_row i e, st\<lparr>discoveryLog := map (mark_row i) (discoveryLog st)\<rparr>))"

definition userPlaylist_findUnique :: "string \<Rightarrow> store \<Rightarrow> UserPlaylist option" where
  "userPlaylist_findUnique u st = find (\<lambda>r. up_userId r = u) (userPlaylist st)"

definition new_userPlaylist :: "env \<Rightarrow> string \<Rightarrow> string \<Rightarrow> UserPlaylist" where
  \<comment> \<open>The row that \<^verbatim>\<open>create({ data: { userId, playlistId } })\<close> inserts.\<close>
  "new_userPlaylist env u p =
     \<lparr>up_id = cuid env, up_userId = u, up_playlistId = p, up_createdAt = now env\<rparr>"

definition userPlaylist_create :: "env \<Rightarrow> string \<Rightarrow> string \<Rightarrow> store \<Rightarrow> store option" where
  "userPlaylist_create env u p st =
     (if cuid env \<in> set (map up_id (userPlaylist st)) \<or> has_user u st then None
      else Some (st\<lparr>userPlaylist := userPlaylist st @ [new_userPlaylist env u p]\<rparr>))"

definition user_removed :: "string \<Rightarrow> store \<Rightarrow> store" where
  \<comment> \<open>The store without the playlist row of the user and, where the declared relation
      is enforced, without the rows that cascade from it.\<close>
  "user_removed u st =
     st\<lparr>userPlaylist := filter (\<lambda>r. up_userId r \<noteq> u) (userPlaylist st),
        discoveryLog := (if user_fk st
                         then filter (\<lambda>e. dl_userId e \<noteq> u) (discoveryLog st)
                         else discoveryLog st),
        dailyCard := (if user_fk st
                      then filter (\<lambda>d. dc_userId d \<noteq> u) (dailyCard st)
                      else dailyCard st)\<rparr>"

definition userPlaylist_delete :: "string \<Rightarrow> store \<Rightarrow> store option" where
  \<comment> \<open>\<^verbatim>\<open>delete({ where: { userId } })\<close>: it throws when there is no such row.\<close>
  "userPlaylist_delete u st = (if \<not> has_user u st then None else Some (user_removed u st))"

definition dailyCard_findMany ::
  "string \<Rightarrow> int \<Rightarrow> int \<Rightarrow> store \<Rightarrow> (DailyCard \<times> Card) list option" where
  \<comment> \<open>\<^verbatim>\<open>where: { userId, date: { gte, lt } }, include: { card: true }\<close>; a row whose card is
      missing makes the query throw.\<close>
  "dailyCard_findMany u start end st =
     those (map (\<lambda>d. map_option (Pair d) (find (\<lambda>c. c_id c = dc_cardId d) (card_table st)))
              (filter (\<lambda>d. dc_userId d = u \<and> start \<le> dc_date d \<and> dc_date d < end)
                 (dailyCard st)))"

definition dailyCard_key :: "DailyCard \<Rightarrow> string \<times> int \<times> int" where
  \<comment> \<open>\<^verbatim>\<open>@@unique([userId, cardId, date])\<close>\<close>
  "dailyCard_key d = (dc_userId d, dc_cardId d, dc_date d)"

definition dailyCard_rows :: "int \<Rightarrow> string \<Rightarrow> int \<Rightarrow> int list \<Rightarrow> DailyCard list" where
  \<comment> \<open>\<^verbatim>\<open>selected.map(c => ({ userId, cardId: c.id, date: start }))\<close>, each row with the
      next value of the sequence as its id.\<close>
  "dailyCard_rows seq u date cardIds =
     map (\<lambda>(k, cid). \<lparr>dc_id = seq + int k, dc_userId = u, dc_cardId = cid, dc_date = date\<rparr>)
       (enumerate 0 cardIds)"

definition dailyCard_createMany :: "string \<Rightarrow> int \<Rightarrow> int list \<Rightarrow> store \<Rightarrow> store option" where
  \<comment> \<open>One INSERT of all rows: it takes them all or, on a violated constraint, none.\<close>
  "dailyCard_createMany u date cardIds st =
     (let rows = dailyCard_rows (dailyCard_seq st) u date cardIds
      in if (user_fk st \<and> rows \<noteq> [] \<and> \<not> has_user u st)
            \<or> \<not> list_all (\<lambda>cid. cid \<in> set (map c_id (card_table st))) cardIds
            \<or> \<not> distinct (map dailyCard_key (dailyCard st @ rows))
            \<or> \<not> distinct (map dc_id (dailyCard st @ rows))
         then None
         else Some (st\<lparr>dailyCard := dailyCard st @ rows,
                       dailyCard_seq := dailyCard_seq st + int (length rows)\<rparr>))"

subsection \<open>POST /api/discovery and POST /api/discovery/mark-as-added\<close>

record discovery_body =
  b_userId :: "string option"
  b_cardTitle :: "string option"
  b_trackUri :: "string option"
  b_added :: "bool option"

definition post_discovery :: "env \<Rightarrow> store \<Rightarrow> discovery_body \<Rightarrow> response \<times> store" where
  "post_discovery env st b =
     (case (b_userId b, b_cardTitle b, b_trackUri b) of
        (Some userId, Some cardTitle, Some trackUri) \<Rightarrow>
          if userId = [] \<or> cardTitle = [] \<or> trackUri = [] then
            (json 400 (ErrorJson ''Faltan datos obligatorios''), st)
          else
            (case discoveryLog_findFirst userId trackUri st of
               Some exists \<Rightarrow> (json 200 (MessageIdJson ''Ya registrado'' (dl_id exists)), st)
             | None \<Rightarrow>
                 (case discoveryLog_create env userId cardTitle trackUri
                         (case b_added b of None \<Rightarrow> False | Some a \<Rightarrow> a) st of
                    None \<Rightarrow> (json 500 (ErrorJson ''Error interno al registrar''), st)
                  | Some (log, st') \<Rightarrow> (json 200 (LogJson log), st')))
      | _ \<Rightarrow> (json 400 (ErrorJson ''Faltan datos obligatorios''), st))"

definition msg_not_found :: string where
  \<comment> \<open>"No se encontro el DiscoveryLog" with an acute accent on the last o of the third
      word, that letter as its two UTF-8 bytes\<close>
  "msg_not_found = ''No se encontr'' @ [CHR 0xC3, CHR 0xB3] @ '' el DiscoveryLog''"

definition msg_already_marked :: string where
  \<comment> \<open>"Ya estaba marcado como anadido" with a tilde on the first n of the last word,
      that letter as its two UTF-8 bytes\<close>
  "msg_already_marked = ''Ya estaba marcado como a'' @ [CHR 0xC3, CHR 0xB1] @ ''adido''"

definition post_discovery_mark_as_added ::
  "store \<Rightarrow> string option \<Rightarrow> string option \<Rightarrow> response \<times> store" where
  \<comment> \<open>The arguments after the store are \<^verbatim>\<open>req.body.userId\<close> and \<^verbatim>\<open>req.body.trackUri\<close>.\<close>
  "post_discovery_mark_as_added st b_user b_track =
     (case (b_user, b_track) of
        (Some userId, Some trackUri) \<Rightarrow>
          if userId = [] \<or> trackUri = [] then
            (json 400 (ErrorJson ''Faltan datos obligatorios''), st)
          else
            (case discoveryLog_findFirst userId trackUri st of
               None \<Rightarrow> (json 404 (ErrorJson msg_not_found), st)
             | Some existing \<Rightarrow>
                 if \<not> dl_added existing then
                   (case discoveryLog_update_added (dl_id existing) st of
                      None \<Rightarrow> (json 500 (ErrorJson ''Error interno''), st)
                    | Some (updated, st') \<Rightarrow> (json 200 (LogJson updated), st'))
                 else (json 200 (MessageJson msg_already_marked), st))
      | _ \<Rightarrow> (json 400 (ErrorJson ''Faltan datos obligatorios''), st))"

subsection \<open>GET /api/cards/daily\<close>

definition utc_day_start :: "int \<Rightarrow> int" where
  \<comment> \<open>\<^verbatim>\<open>Date.UTC(y, m, d)\<close> of the UTC fields of the instant: midnight of its UTC day.\<close>
  "utc_day_start t = (t div 86400000) * 86400000"

definition get_cards_daily :: "env \<Rightarrow> store \<Rightarrow> string option \<Rightarrow> response \<times> store" where
  \<comment> \<open>The last argument is \<^verbatim>\<open>req.query.userId\<close>.\<close>
  "get_cards_daily env st q_userId =
     (case q_userId of
        None \<Rightarrow> (json 400 (ErrorJson ''Falta userId''), st)
      | Some userId \<Rightarrow>
          if userId = [] then (json 400 (ErrorJson ''Falta userId''), st)
          else
            let start = utc_day_start (now env);
                end = start + 86400000
            in (case dailyCard_findMany userId start end st of
                  None \<Rightarrow> (json 500 (ErrorJson ''Error interno''), st)
                | Some daily \<Rightarrow>
                    if length daily = 0 then
                      let seenUris = map dl_trackUri
                                       (filter (\<lambda>e. dl_userId e = userId) (discoveryLog st));
                          pool = filter (\<lambda>c. c_uri c \<notin> set seenUris) (card_table st);
                          candidates = (if length pool \<ge> 3 then pool else card_table st);
                          selected = take 3 (shuffle env candidates)
                      in (case dailyCard_createMany userId start (map c_id selected) st of
                            None \<Rightarrow> (json 500 (ErrorJson ''Error interno''), st)
                          | Some st' \<Rightarrow> (json 200 (CardsJson selected), st'))
                    else (json 200 (CardsJson (map snd daily)), st)))"

subsection \<open>POST /api/cards/seed\<close>

record NewCard =
  n_img :: string
  n_title :: string
  n_artist :: string
  n_uri :: string
  n_cover :: string
  n_description :: string

definition card_upsert :: "NewCard \<Rightarrow> store \<Rightarrow> store option" where
  \<comment> \<open>\<^verbatim>\<open>upsert({ where: { uri }, update: {}, create: card })\<close>\<close>
  "card_upsert c st =
     (case find (\<lambda>x. c_uri x = n_uri c) (card_table st) of
        Some x \<Rightarrow> Some st
      | None \<Rightarrow>
          if card_seq st \<in> set (map c_id (card_table st)) then None
          else Some (st\<lparr>card_table := card_table st @
                          [\<lparr>c_id = card_seq st, c_title = n_title c, c_artist = n_artist c,
                            c_uri = n_uri c, c_img = n_img c, c_cover = n_cover c,
                            c_description = n_description c\<rparr>],
                        card_seq := card_seq st + 1\<rparr>))"

fun post_cards_seed :: "NewCard list \<Rightarrow> store \<Rightarrow> response \<times> store" where
  \<comment> \<open>The first argument is the literal \<^verbatim>\<open>dummyCards\<close> of the handler.\<close>
  "post_cards_seed [] st = (json 200 SuccessJson, st)"
| "post_cards_seed (c # cs) st =
     (case card_upsert c st of
        None \<Rightarrow> (json 500 (ErrorJson ''Error insertando cartas''), st)
      | Some st' \<Rightarrow> post_cards_seed cs st')"

subsection \<open>POST /api/playlist/create and GET /api/playlist/exists\<close>

definition soundhaven_playlist :: new_playlist where
  "soundhaven_playlist =
     \<lparr>np_name = ''SoundHaven'',
      np_description = ''Playlist automatically generated by SoundHaven'',
      np_public = False\<rparr>"

definition post_playlist_create ::
  "upstream \<Rightarrow> env \<Rightarrow> store \<Rightarrow> string option \<Rightarrow> response \<times> store \<times> upstream_call list" where
  \<comment> \<open>The last argument is \<^verbatim>\<open>req.headers.authorization\<close>.\<close>
  "post_playlist_create up env st auth =
     (case auth of
        None \<Rightarrow> (json 401 (ErrorJson ''No token''), st, [])
      | Some a \<Rightarrow>
          if a = [] then (json 401 (ErrorJson ''No token''), st, [])
          else
            let token = bearer_token a in
            (case get_me up token of
               Threw \<Rightarrow> (json 500 (ErrorJson ''Error creando playlist''), st, [GetMe token])
             | Resp s user \<Rightarrow>
                 (case userPlaylist_findUnique (su_id user) st of
                    Some record \<Rightarrow>
                      (json 200 (PlaylistIdJson (up_playlistId record)), st, [GetMe token])
                  | None \<Rightarrow>
                      let calls = [GetMe token,
                                   PostPlaylist token (su_id user) soundhaven_playlist]
                      in (case post_playlist up token (su_id user) soundhaven_playlist of
                            Threw \<Rightarrow> (json 500 (ErrorJson ''Error creando playlist''), st, calls)
                          | Resp s' playlist \<Rightarrow>
                              (case userPlaylist_create env (su_id user) (sp_id playlist) st of
                                 None \<Rightarrow>
                                   (json 500 (ErrorJson ''Error creando playlist''), st, calls)
                               | Some st' \<Rightarrow>
                                   (json 200 (PlaylistIdJson (sp_id playlist)), st', calls))))))"

definition first_playlists_url :: string where
  "first_playlists_url = ''https://api.spotify.com/v1/me/playlists?limit=50''"

definition is_soundhaven :: "SpotifyPlaylist \<Rightarrow> bool" where
  \<comment> \<open>\<^verbatim>\<open>p => p.name === "SoundHaven"\<close>\<close>
  "is_soundhaven p = (sp_name p = ''SoundHaven'')"

fun search_playlists ::
  "nat \<Rightarrow> upstream \<Rightarrow> env \<Rightarrow> string \<Rightarrow> string \<Rightarrow> string option \<Rightarrow> store \<Rightarrow> upstream_call list
     \<Rightarrow> (response \<times> store \<times> upstream_call list) option" where
  \<comment> \<open>The \<^verbatim>\<open>while (nextUrl && !exists)\<close> loop and the \<^verbatim>\<open>res.json({ exists })\<close> after it.
      The first argument bounds the iterations; \<open>None\<close> is a loop that has not ended
      within the bound.\<close>
  "search_playlists 0 up env token userId nextUrl st calls =
     (if falsy nextUrl then Some (json 200 (ExistsJson False), st, calls) else None)"
| "search_playlists (Suc n) up env token userId nextUrl st calls =
     (case nextUrl of
        None \<Rightarrow> Some (json 200 (ExistsJson False), st, calls)
      | Some url \<Rightarrow>
          if url = [] then Some (json 200 (ExistsJson False), st, calls)
          else
            (case get_url up token url of
               Threw \<Rightarrow>
                 Some (json 500 (ErrorJson ''Error interno''), st, calls @ [GetUrl token url])
             | Resp s data \<Rightarrow>
                 if list_ex is_soundhaven (items data) then
                   (case find is_soundhaven (items data) of
                      Some playlist \<Rightarrow>
                        (case userPlaylist_create env userId (sp_id playlist) st of
                           None \<Rightarrow>
                             Some (json 500 (ErrorJson ''Error interno''), st,
                                   calls @ [GetUrl token url])
                         | Some st' \<Rightarrow>
                             Some (json 200 (ExistsJson True), st', calls @ [GetUrl token url]))
                    | None \<Rightarrow> Some (json 200 (ExistsJson True), st, calls @ [GetUrl token url]))
                 else
                   search_playlists n up env token userId (next_url data) st
                     (calls @ [GetUrl token url])))"

definition get_playlist_exists ::
  "nat \<Rightarrow> upstream \<Rightarrow> env \<Rightarrow> store \<Rightarrow> string option
     \<Rightarrow> (response \<times> store \<times> upstream_call list) option" where
  \<comment> \<open>The last argument is \<^verbatim>\<open>req.headers.authorization\<close>, the first the bound of the loop.\<close>
  "get_playlist_exists fuel up env st auth =
     (case auth of
        None \<Rightarrow> Some (json 401 (ErrorJson ''Falta token''), st, [])
      | Some a \<Rightarrow>
          if a = [] then Some (json 401 (ErrorJson ''Falta token''), st, [])
          else
            let token = bearer_token a in
            (case get_me up token of
               Threw \<Rightarrow> Some (json 500 (ErrorJson ''Error interno''), st, [GetMe token])
             | Resp s user \<Rightarrow>
                 (case userPlaylist_findUnique (su_id user) st of
                    Some record \<Rightarrow>
                      let calls = [GetMe token, GetPlaylist token (up_playlistId record)]
                      in (case get_playlist up token (up_playlistId record) of
                            Threw \<Rightarrow> Some (json 500 (ErrorJson ''Error interno''), st, calls)
                          | Resp checkStatus x \<Rightarrow>
                              if checkStatus = 200 then
                                Some (json 200 (ExistsJson True), st, calls)
                              else
                                (case userPlaylist_delete (su_id user) st of
                                   None \<Rightarrow>
                                     Some (json 500 (ErrorJson ''Error interno''), st, calls)
                                 | Some st' \<Rightarrow>
                                     search_playlists fuel up env token (su_id user)
                                       (Some first_playlists_url) st' calls))
                  | None \<Rightarrow>
                      search_playlists fuel up env token (su_id user)
                        (Some first_playlists_url) st [GetMe token])))"

subsection \<open>The operations of the system on the store\<close>

text \<open>
  One step is one request served to its end. The handlers not modelled above (login,
  callback, refresh, logout, \<^verbatim>\<open>/api/playlist/add\<close>, \<^verbatim>\<open>/api/me\<close>, \<^verbatim>\<open>/api/cards\<close>,
  \<^verbatim>\<open>/api/discovery/all\<close>, \<^verbatim>\<open>/api/discovery/today\<close>) make no Prisma call that writes.
\<close>

inductive step :: "store \<Rightarrow> store \<Rightarrow> bool" where
  step_discovery: "post_discovery env st b = (r, st') \<Longrightarrow> step st st'"
| step_mark_as_added: "post_discovery_mark_as_added st u t = (r, st') \<Longrightarrow> step st st'"
| step_cards_daily: "get_cards_daily env st u = (r, st') \<Longrightarrow> step st st'"
| step_cards_seed: "post_cards_seed deck st = (r, st') \<Longrightarrow> step st st'"
| step_playlist_create: "post_playlist_create up env st auth = (r, st', calls) \<Longrightarrow> step st st'"
| step_playlist_exists:
    "get_playlist_exists fuel up env st auth = Some (r, st', calls) \<Longrightarrow> step st st'"
| step_read_only: "step st st"

subsection \<open>What the store guarantees and what the handlers keep true\<close>

definition discovery_pair :: "DiscoveryLog \<Rightarrow> string \<times> string" where
  "discovery_pair e = (dl_userId e, dl_trackUri e)"

definition store_ok :: "store \<Rightarrow> bool" where
  \<comment> \<open>Primary keys, unique indexes and the card foreign key of the schema; the sequences
      are ahead of the ids in use; and two facts the handlers establish themselves: one
      discovery entry for a user and track, every assignment dated at a UTC midnight.\<close>
  "store_ok st =
     (distinct (map dl_id (discoveryLog st))
      \<and> distinct (map discovery_pair (discoveryLog st))
      \<and> distinct (map up_id (userPlaylist st))
      \<and> distinct (map up_userId (userPlaylist st))
      \<and> distinct (map c_id (card_table st))
      \<and> distinct (map c_uri (card_table st))
      \<and> list_all (\<lambda>c. c_id c < card_seq st) (card_table st)
      \<and> distinct (map dc_id (dailyCard st))
      \<and> distinct (map dailyCard_key (dailyCard st))
      \<and> list_all (\<lambda>d. dc_id d < dailyCard_seq st) (dailyCard st)
      \<and> list_all (\<lambda>d. dc_cardId d \<in> set (map c_id (card_table st))) (dailyCard st)
      \<and> list_all (\<lambda>d. dc_date d mod 86400000 = 0) (dailyCard st))"

definition empty_store :: "bool \<Rightarrow> store" where
  "empty_store fk =
     \<lparr>discoveryLog = [], userPlaylist = [], card_table = [], dailyCard = [], card_seq = 1,
      dailyCard_seq = 1, user_fk = fk\<rparr>"


definition assignments_for :: "string \<Rightarrow> int \<Rightarrow> store \<Rightarrow> DailyCard list" where
  \<comment> \<open>The assignments of a user dated within the UTC day of the instant.\<close>
  "assignments_for u t st =
     filter (\<lambda>d. dc_userId d = u \<and> utc_day_start t \<le> dc_date d
                 \<and> dc_date d < utc_day_start t + 86400000) (dailyCard st)"


definition returned_cards :: "response \<Rightarrow> Card list" where
  "returned_cards r = (case payload r of CardsJson cs \<Rightarrow> cs | _ \<Rightarrow> [])"

definition permutes :: "(Card list \<Rightarrow> Card list) \<Rightarrow> bool" where
  \<comment> \<open>What is assumed of the random sort: it reorders the array it is given.\<close>
  "permutes f = (\<forall>xs. mset (f xs) = mset xs)"


definition candidates :: "string \<Rightarrow> store \<Rightarrow> Card list" where
  \<comment> \<open>The list \<^verbatim>\<open>candidates\<close> of GET /api/cards/daily, as a function of the user and the store.\<close>
  "candidates u st =
     (let seenUris = map dl_trackUri (filter (\<lambda>e. dl_userId e = u) (discoveryLog st));
          pool = filter (\<lambda>c. c_uri c \<notin> set seenUris) (card_table st)
      in if length pool \<ge> 3 then pool else card_table st)"




subsection \<open>Concrete requests, upstreams and stores\<close>

definition ex_config :: config where
  "ex_config = \<lparr>SPOTIFY_CLIENT_ID = ''cid'', SPOTIFY_CLIENT_SECRET = ''secret'',
     SPOTIFY_REDIRECT_URI = ''http://localhost:4000/api/auth/callback'',
     CLIENT_URL = ''http://localhost:5173'', production = False\<rparr>"

definition ex_token_response :: "string option \<Rightarrow> SpotifyTokenResponse" where
  "ex_token_response rt = \<lparr>access_token = Some ''at1'', token_type = ''Bearer'', expires_in = 3600,
     refresh_token = rt, scope = ''streaming''\<rparr>"

definition ex_upstream :: "string option \<Rightarrow> upstream" where
  "ex_upstream rt = \<lparr>post_token = (\<lambda>q. Resp 200 (ex_token_response rt)),
     get_me = (\<lambda>t. Threw), get_playlist = (\<lambda>t p. Threw), get_url = (\<lambda>t u. Threw),
     post_playlist = (\<lambda>t u b. Threw)\<rparr>"


definition ex_env :: env where
  "ex_env = \<lparr>now = 1700000000000, cuid = ''cuid1'', shuffle = (\<lambda>xs. xs)\<rparr>"

definition ex_card :: "int \<Rightarrow> string \<Rightarrow> Card" where
  "ex_card i uri = \<lparr>c_id = i, c_title = ''title'', c_artist = ''artist'', c_uri = uri,
     c_img = ''/art/a.png'', c_cover = ''/art/c.png'', c_description = ''text''\<rparr>"

definition ex_store :: "bool \<Rightarrow> store" where
  \<comment> \<open>A user with a stored playlist, a deck of two cards, nothing else.\<close>
  "ex_store fk =
     \<lparr>discoveryLog = [],
      userPlaylist = [\<lparr>up_id = ''row1'', up_userId = ''u1'', up_playlistId = ''pl1'',
                       up_createdAt = 0\<rparr>],
      card_table = [ex_card 1 ''spotify:track:a'', ex_card 2 ''spotify:track:b''],
      dailyCard = [], card_seq = 3, dailyCard_seq = 1, user_fk = fk\<rparr>"





definition ex_store_assigned :: "bool \<Rightarrow> store" where
  \<comment> \<open>The store above with two assignments of the user for the UTC day of \<open>now ex_env\<close>.\<close>
  "ex_store_assigned fk = (ex_store fk)
     \<lparr>dailyCard := [\<lparr>dc_id = 1, dc_userId = ''u1'', dc_cardId = 2, dc_date = 1699920000000\<rparr>,
                      \<lparr>dc_id = 2, dc_userId = ''u1'', dc_cardId = 1, dc_date = 1699920000000\<rparr>],
      dailyCard_seq := 3\<rparr>"




section \<open>Properties\<close>

subsection \<open>Lists, rows and the store\<close>



lemma find_Some_holds: "find P xs = Some x \<Longrightarrow> P x \<and> x \<in> set xs"
  by (induction xs) (auto split: if_splits)









subsection \<open>store_ok is kept\<close>

lemma mark_row_keys [simp]:
  "dl_id (mark_row i e) = dl_id e"
  "discovery_pair (mark_row i e) = discovery_pair e"
  by (simp_all add: mark_row_def discovery_pair_def)

lemma store_ok_discoveryLog_create:
  assumes "store_ok st" "discoveryLog_findFirst u t st = None"
    and "discoveryLog_create env u title t a st = Some (log, st')"
  shows "store_ok st'"
  using assms
  by (auto simp: store_ok_def discoveryLog_create_def discoveryLog_findFirst_def Let_def
      find_None_iff discovery_pair_def split: if_splits)

lemma store_ok_update_added:
  assumes "store_ok st" "discoveryLog_update_added i st = Some (x, st')"
  shows "store_ok st'"
proof -
  have "st' = st\<lparr>discoveryLog := map (mark_row i) (discoveryLog st)\<rparr>"
    using assms(2) by (auto simp: discoveryLog_update_added_def mark_row_def split: option.splits)
  with assms(1) show ?thesis by (simp add: store_ok_def comp_def)
qed

lemma store_ok_userPlaylist_create:
  assumes "store_ok st" "userPlaylist_create env u p st = Some st'"
  shows "store_ok st'"
  using assms
  by (auto simp: store_ok_def userPlaylist_create_def new_userPlaylist_def has_user_def
      split: if_splits)

lemma store_ok_userPlaylist_delete:
  assumes "store_ok st" "userPlaylist_delete u st = Some st'"
  shows "store_ok st'"
  using assms
  by (auto simp: store_ok_def userPlaylist_delete_def user_removed_def distinct_map_filter
      list_all_iff split: if_splits)

lemma map_enumerate_snd: "map (\<lambda>x. f (snd x)) (enumerate n xs) = map f xs"
  by (induction xs arbitrary: n) simp_all

lemma map_enumerate_fst: "map (\<lambda>x. f (fst x)) (enumerate n xs) = map f [n..<n + length xs]"
  by (induction xs arbitrary: n) (simp_all add: upt_rec)

lemma dailyCard_rows_facts:
  "map dc_cardId (dailyCard_rows seq u date cids) = cids"
  "map dailyCard_key (dailyCard_rows seq u date cids) = map (\<lambda>cid. (u, cid, date)) cids"
  "map dc_id (dailyCard_rows seq u date cids) = map (\<lambda>k. seq + int k) [0..<length cids]"
  "length (dailyCard_rows seq u date cids) = length cids"
  "map dc_date (dailyCard_rows seq u date cids) = map (\<lambda>c. date) cids"
  "map dc_userId (dailyCard_rows seq u date cids) = map (\<lambda>c. u) cids"
  using map_enumerate_snd [of id 0 cids] map_enumerate_snd [of "\<lambda>cid. (u, cid, date)" 0 cids]
    map_enumerate_fst [of "\<lambda>k. seq + int k" 0 cids] map_enumerate_snd [of "\<lambda>c. date" 0 cids]
    map_enumerate_snd [of "\<lambda>c. u" 0 cids]
  by (simp_all add: dailyCard_rows_def dailyCard_key_def case_prod_unfold comp_def)

lemma dailyCard_rows_set:
  assumes "r \<in> set (dailyCard_rows seq u date cids)"
  shows "dc_userId r = u" "dc_date r = date" "dc_cardId r \<in> set cids"
    "seq \<le> dc_id r" "dc_id r < seq + int (length cids)"
proof -
  from assms obtain k cid where kc: "(k, cid) \<in> set (enumerate 0 cids)"
    and r: "r = \<lparr>dc_id = seq + int k, dc_userId = u, dc_cardId = cid, dc_date = date\<rparr>"
    by (auto simp: dailyCard_rows_def)
  from kc have "k < length cids" "cid \<in> set cids"
    by (auto simp: in_set_enumerate_eq)
  with r show "dc_userId r = u" "dc_date r = date" "dc_cardId r \<in> set cids"
    "seq \<le> dc_id r" "dc_id r < seq + int (length cids)"
    by simp_all
qed

lemma store_ok_createMany:
  assumes "store_ok st" "date mod 86400000 = 0"
    and "dailyCard_createMany u date cids st = Some st'"
  shows "store_ok st'"
proof -
  let ?rows = "dailyCard_rows (dailyCard_seq st) u date cids"
  from assms(3) have st': "st' = st\<lparr>dailyCard := dailyCard st @ ?rows,
        dailyCard_seq := dailyCard_seq st + int (length ?rows)\<rparr>"
    and fk: "list_all (\<lambda>cid. cid \<in> set (map c_id (card_table st))) cids"
    and keys: "distinct (map dailyCard_key (dailyCard st @ ?rows))"
    and ids: "distinct (map dc_id (dailyCard st @ ?rows))"
    by (auto simp: dailyCard_createMany_def Let_def split: if_splits)
  have new: "\<forall>r\<in>set ?rows. dc_id r < dailyCard_seq st + int (length ?rows)
      \<and> dc_cardId r \<in> set (map c_id (card_table st)) \<and> dc_date r mod 86400000 = 0"
    using dailyCard_rows_set [of _ "dailyCard_seq st" u date cids] fk assms(2)
    by (auto simp: list_all_iff dailyCard_rows_facts(4))
  have old: "\<forall>r\<in>set (dailyCard st). dc_id r < dailyCard_seq st + int (length ?rows)"
    using assms(1) by (fastforce simp: store_ok_def list_all_iff)
  show ?thesis
    using assms(1) keys ids new old unfolding st' store_ok_def
    by (auto simp: list_all_iff)
qed

lemma store_ok_card_upsert:
  assumes "store_ok st" "card_upsert c st = Some st'"
  shows "store_ok st'"
proof (cases "find (\<lambda>x. c_uri x = n_uri c) (card_table st)")
  case (Some x)
  with assms show ?thesis by (simp add: card_upsert_def)
next
  case None
  then have uri: "n_uri c \<notin> set (map c_uri (card_table st))"
    by (auto simp: find_None_iff)
  from None assms(2) have seq: "card_seq st \<notin> set (map c_id (card_table st))"
    and st': "st' = st\<lparr>card_table := card_table st @
                          [\<lparr>c_id = card_seq st, c_title = n_title c, c_artist = n_artist c,
                            c_uri = n_uri c, c_img = n_img c, c_cover = n_cover c,
                            c_description = n_description c\<rparr>],
                        card_seq := card_seq st + 1\<rparr>"
    by (auto simp: card_upsert_def split: if_splits)
  show ?thesis
    using assms(1) uri seq unfolding st' store_ok_def
    by (fastforce simp: list_all_iff)
qed

lemma utc_day_start_mod [simp]: "utc_day_start t mod 86400000 = 0"
  by (simp add: utc_day_start_def)

lemma store_ok_post_discovery:
  "store_ok st \<Longrightarrow> post_discovery env st b = (r, st') \<Longrightarrow> store_ok st'"
  by (auto simp: post_discovery_def split: option.splits if_splits prod.splits
      dest: store_ok_discoveryLog_create)

lemma store_ok_mark_as_added:
  "store_ok st \<Longrightarrow> post_discovery_mark_as_added st u t = (r, st') \<Longrightarrow> store_ok st'"
  by (auto simp: post_discovery_mark_as_added_def split: option.splits if_splits prod.splits
      dest: store_ok_update_added)

lemma store_ok_cards_daily:
  "store_ok st \<Longrightarrow> get_cards_daily env st u = (r, st') \<Longrightarrow> store_ok st'"
  by (auto simp: get_cards_daily_def Let_def split: option.splits if_splits
      dest: store_ok_createMany [rotated 2])

lemma store_ok_cards_seed:
  "store_ok st \<Longrightarrow> post_cards_seed deck st = (r, st') \<Longrightarrow> store_ok st'"
  by (induction deck st rule: post_cards_seed.induct)
    (auto split: option.splits dest: store_ok_card_upsert)

lemma store_ok_playlist_create:
  "store_ok st \<Longrightarrow> post_playlist_create up env st auth = (r, st', calls) \<Longrightarrow> store_ok st'"
  by (auto simp: post_playlist_create_def Let_def split: option.splits if_splits fetched.splits
      dest: store_ok_userPlaylist_create)

lemma store_ok_search:
  "store_ok st \<Longrightarrow> search_playlists n up env token uid url st calls = Some (r, st', calls')
     \<Longrightarrow> store_ok st'"
proof (induction n up env token uid url st calls rule: search_playlists.induct)
  case (1 up env token userId nextUrl st calls)
  then show ?case by (auto split: if_splits)
next
  case (2 n up env token userId nextUrl st calls)
  then show ?case
    by (auto split: option.splits if_splits fetched.splits dest: store_ok_userPlaylist_create)
qed

lemma store_ok_playlist_exists:
  "store_ok st \<Longrightarrow> get_playlist_exists n up env st auth = Some (r, st', calls) \<Longrightarrow> store_ok st'"
  by (auto simp: get_playlist_exists_def Let_def split: option.splits if_splits fetched.splits
      dest: store_ok_search store_ok_userPlaylist_delete)

lemma store_ok_step: "step st st' \<Longrightarrow> store_ok st \<Longrightarrow> store_ok st'"
  by (induction rule: step.induct)
    (auto dest: store_ok_post_discovery store_ok_mark_as_added store_ok_cards_daily
      store_ok_cards_seed store_ok_playlist_create store_ok_playlist_exists)

lemma store_ok_empty: "store_ok (empty_store fk)"
  by (simp add: store_ok_def empty_store_def)

lemma store_ok_reachable: "step\<^sup>*\<^sup>* (empty_store fk) st \<Longrightarrow> store_ok st"
  by (induction rule: rtranclp_induct) (auto intro: store_ok_empty store_ok_step)

subsection \<open>Entries marked as added stay marked\<close>














subsection \<open>The daily cards\<close>

lemma those_map_Some:
  "those (map f xs) = Some ys \<Longrightarrow> list_all2 (\<lambda>x y. f x = Some y) xs ys"
  by (induction xs arbitrary: ys) (auto split: option.splits)


lemma multiple_in_window:
  fixes D :: int
  assumes "0 < D" "d mod D = 0" "q * D \<le> d" "d < q * D + D"
  shows "d = q * D"
proof -
  define k where "k = d div D"
  have k: "d = k * D"
    using div_mult_mod_eq [of d D] assms(2) by (simp add: k_def)
  from assms(3) k assms(1) have "q \<le> k"
    by simp
  moreover from assms(4) k have "k * D < (q + 1) * D"
    by (simp add: algebra_simps)
  with assms(1) have "k < q + 1"
    by simp
  ultimately show ?thesis using k by simp
qed

lemma midnight_in_day:
  assumes "d mod 86400000 = 0" "utc_day_start t \<le> d" "d < utc_day_start t + 86400000"
  shows "d = utc_day_start t"
  using multiple_in_window [of 86400000 d "t div 86400000"] assms
  unfolding utc_day_start_def by simp

lemma findMany_rows:
  assumes "dailyCard_findMany u (utc_day_start t) (utc_day_start t + 86400000) st = Some daily"
  shows "list_all2 (\<lambda>d p. p = (d, snd p) \<and> snd p \<in> set (card_table st) \<and> c_id (snd p) = dc_cardId d)
           (assignments_for u t st) daily"
proof -
  have "list_all2 (\<lambda>d p. map_option (Pair d) (find (\<lambda>c. c_id c = dc_cardId d) (card_table st)) = Some p)
          (assignments_for u t st) daily"
    using assms those_map_Some unfolding dailyCard_findMany_def assignments_for_def by fast
  then show ?thesis
    by (rule list_all2_mono) (auto dest: find_Some_holds)
qed


lemma assignments_cardIds_distinct:
  assumes "store_ok st"
  shows "distinct (map dc_cardId (assignments_for u t st))"
proof -
  have key: "\<forall>d\<in>set (assignments_for u t st). dailyCard_key d = (u, dc_cardId d, utc_day_start t)"
    using assms midnight_in_day
    by (auto simp: assignments_for_def store_ok_def list_all_iff dailyCard_key_def)
  have "distinct (map dailyCard_key (assignments_for u t st))"
    using assms by (simp add: assignments_for_def store_ok_def distinct_map_filter)
  moreover have "map dailyCard_key (assignments_for u t st)
      = map (\<lambda>c. (u, c, utc_day_start t)) (map dc_cardId (assignments_for u t st))"
    using key by simp
  ultimately have "distinct (map (\<lambda>c. (u, c, utc_day_start t))
      (map dc_cardId (assignments_for u t st)))"
    by simp
  then show ?thesis
    using distinct_map by blast
qed

lemma candidates_facts:
  assumes "store_ok st"
  shows "distinct (map c_id (candidates u st))" "set (candidates u st) \<subseteq> set (card_table st)"
    "min 3 (length (candidates u st)) = min 3 (length (card_table st))"
proof -
  show "distinct (map c_id (candidates u st))"
    using assms by (simp add: candidates_def store_ok_def Let_def distinct_map_filter)
  show "set (candidates u st) \<subseteq> set (card_table st)"
    by (auto simp: candidates_def Let_def)
  define pool where "pool = filter (\<lambda>c. c_uri c \<notin> set (map dl_trackUri
      (filter (\<lambda>e. dl_userId e = u) (discoveryLog st)))) (card_table st)"
  have "candidates u st = (if 3 \<le> length pool then pool else card_table st)"
    by (simp add: candidates_def pool_def Let_def)
  moreover have "length pool \<le> length (card_table st)"
    by (simp add: pool_def)
  ultimately show "min 3 (length (candidates u st)) = min 3 (length (card_table st))"
    by (simp add: min_def)
qed

lemma selected_facts:
  assumes "store_ok st" "permutes (shuffle env)"
  shows "distinct (map c_id (take 3 (shuffle env (candidates u st))))"
    "set (take 3 (shuffle env (candidates u st))) \<subseteq> set (card_table st)"
    "length (take 3 (shuffle env (candidates u st))) = min 3 (length (card_table st))"
proof -
  have perm: "mset (shuffle env (candidates u st)) = mset (candidates u st)"
    using assms(2) by (simp add: permutes_def)
  then have "mset (map c_id (shuffle env (candidates u st))) = mset (map c_id (candidates u st))"
    by simp
  then have "distinct (map c_id (shuffle env (candidates u st)))"
    using candidates_facts(1) [OF assms(1), of u] mset_eq_imp_distinct_iff by blast
  then show "distinct (map c_id (take 3 (shuffle env (candidates u st))))"
    by (simp add: take_map [symmetric])
  have "set (shuffle env (candidates u st)) = set (candidates u st)"
    using perm by (rule mset_eq_setD)
  then show "set (take 3 (shuffle env (candidates u st))) \<subseteq> set (card_table st)"
    using candidates_facts(2) [OF assms(1), of u] set_take_subset by fast
  have "length (shuffle env (candidates u st)) = length (candidates u st)"
    using perm by (rule mset_eq_length)
  then show "length (take 3 (shuffle env (candidates u st))) = min 3 (length (card_table st))"
    using candidates_facts(3) [OF assms(1), of u] by (simp add: min.commute)
qed




lemma cards_daily_unfold:
  "get_cards_daily env st (Some u) =
     (if u = [] then (json 400 (ErrorJson ''Falta userId''), st)
      else case dailyCard_findMany u (utc_day_start (now env))
                  (utc_day_start (now env) + 86400000) st of
             None \<Rightarrow> (json 500 (ErrorJson ''Error interno''), st)
           | Some daily \<Rightarrow>
               if daily = [] then
                 (case dailyCard_createMany u (utc_day_start (now env))
                         (map c_id (take 3 (shuffle env (candidates u st)))) st of
                    None \<Rightarrow> (json 500 (ErrorJson ''Error interno''), st)
                  | Some st' \<Rightarrow>
                      (json 200 (CardsJson (take 3 (shuffle env (candidates u st)))), st'))
               else (json 200 (CardsJson (map snd daily)), st))"
  by (simp add: get_cards_daily_def candidates_def Let_def split: option.split)






subsection \<open>The managed playlist\<close>

lemma bearer_token_prefix: "bearer_token (''Bearer '' @ t) = t"
  by (simp add: bearer_token_def)










subsection \<open>The claims\<close>

text \<open>
  C1. A callback whose \<open>error\<close> is not "access\_denied" and whose \<open>state\<close> is absent or
  differs from the \<open>spotify_state\<close> cookie (an absent cookie included) is answered
  400 "State mismatch", and the token endpoint is not called.
\<close>

theorem callback_state_mismatch:
  assumes "q_error req \<noteq> Some ''access_denied''"
    and "q_state req = None \<or> q_state req \<noteq> spotify_state req"
  shows "get_auth_callback cfg up req =
           (\<lparr>status = 400, payload = Text ''State mismatch'', cookies = []\<rparr>, [])"
  using assms by (auto simp: get_auth_callback_def falsy_def)

theorem callback_state_mismatch_witness:
  "get_auth_callback ex_config (ex_upstream None)
     \<lparr>q_code = Some ''c'', q_state = Some ''abc'', q_error = None, spotify_state = Some ''ABC''\<rparr>
   = (\<lparr>status = 400, payload = Text ''State mismatch'', cookies = []\<rparr>, [])
   \<and> get_auth_callback ex_config (ex_upstream None)
     \<lparr>q_code = Some ''c'', q_state = Some ''abc'', q_error = None, spotify_state = None\<rparr>
   = (\<lparr>status = 400, payload = Text ''State mismatch'', cookies = []\<rparr>, [])
   \<and> get_auth_callback ex_config (ex_upstream None)
     \<lparr>q_code = Some ''c'', q_state = None, q_error = None, spotify_state = None\<rparr>
   = (\<lparr>status = 400, payload = Text ''State mismatch'', cookies = []\<rparr>, [])"
  using callback_state_mismatch [of "\<lparr>q_code = Some ''c'', q_state = Some ''abc'', q_error = None, spotify_state = Some ''ABC''\<rparr>" ex_config "ex_upstream None"]
    callback_state_mismatch [of "\<lparr>q_code = Some ''c'', q_state = Some ''abc'', q_error = None, spotify_state = None\<rparr>" ex_config "ex_upstream None"]
    callback_state_mismatch [of "\<lparr>q_code = Some ''c'', q_state = None, q_error = None, spotify_state = None\<rparr>" ex_config "ex_upstream None"]
  by simp


text \<open>
  C2 (amended). For a request with a non-empty \<open>refresh_token\<close> cookie whose exchange
  succeeds (a 2xx answer with a non-empty \<open>access_token\<close>), the cookie is issued again
  exactly when the upstream answer has a \<open>refresh_token\<close> that is not the empty string;
  otherwise no cookie is set. In both cases the answer is 200 with the new access token
  and its expiry.
\<close>

theorem refresh_reissues_cookie:
  assumes "cookie = Some rt" and "rt \<noteq> []"
    and "post_token up (RefreshToken rt (SPOTIFY_CLIENT_ID cfg) (SPOTIFY_CLIENT_SECRET cfg))
           = Resp s data"
    and "ok s" and "access_token data = Some at" and "at \<noteq> []"
  shows "fst (get_auth_refresh cfg up cookie) =
           \<lparr>status = 200, payload = AccessJson at (expires_in data),
            cookies = (case refresh_token data of
                         None \<Rightarrow> []
                       | Some new \<Rightarrow> if new = [] then []
                                      else [SetCookie (refresh_token_cookie cfg new)])\<rparr>"
  using assms
  by (simp add: get_auth_refresh_def falsy_def js_string_def split: option.splits)

theorem refresh_reissues_cookie_witness:
  "fst (get_auth_refresh ex_config (ex_upstream (Some ''rt1'')) (Some ''rt0'')) =
     \<lparr>status = 200, payload = AccessJson ''at1'' 3600,
      cookies = [SetCookie (refresh_token_cookie ex_config ''rt1'')]\<rparr>
   \<and> fst (get_auth_refresh ex_config (ex_upstream None) (Some ''rt0'')) =
     \<lparr>status = 200, payload = AccessJson ''at1'' 3600, cookies = []\<rparr>"
  using refresh_reissues_cookie [of "Some ''rt0''" "''rt0''" "ex_upstream (Some ''rt1'')" ex_config 200 "ex_token_response (Some ''rt1'')" "''at1''"]
    refresh_reissues_cookie [of "Some ''rt0''" "''rt0''" "ex_upstream None" ex_config 200 "ex_token_response None" "''at1''"]
  by (simp add: ex_upstream_def ex_token_response_def ok_def)

theorem refresh_empty_token_counterexample:
  "refresh_token (ex_token_response (Some [])) \<noteq> None
   \<and> get_auth_refresh ex_config (ex_upstream (Some [])) (Some ''rt0'')
     = (\<lparr>status = 200, payload = AccessJson ''at1'' 3600, cookies = []\<rparr>,
        [PostToken (RefreshToken ''rt0'' ''cid'' ''secret'')])"
  by (simp add: get_auth_refresh_def ex_upstream_def ex_token_response_def ex_config_def
      falsy_def js_string_def ok_def)























text \<open>
  C9. A callback whose \<open>error\<close> is "access\_denied" is redirected to the login page with
  that error code whatever \<open>state\<close> and the cookie are: the answer is never the 400 of
  the state check, and the token endpoint is not called.
\<close>

theorem callback_access_denied:
  assumes "q_error req = Some ''access_denied''"
  shows "get_auth_callback cfg up req =
           (\<lparr>status = 302, payload = Redirect (CLIENT_URL cfg @ ''/login?error=access_denied''),
             cookies = []\<rparr>, [])"
  using assms by (simp add: get_auth_callback_def)

theorem callback_access_denied_witness:
  "get_auth_callback ex_config (ex_upstream None)
     \<lparr>q_code = None, q_state = None, q_error = Some ''access_denied'', spotify_state = Some ''n1''\<rparr>
   = (\<lparr>status = 302, payload = Redirect ''http://localhost:5173/login?error=access_denied'',
       cookies = []\<rparr>, [])"
  using callback_access_denied [of "\<lparr>q_code = None, q_state = None, q_error = Some ''access_denied'', spotify_state = Some ''n1''\<rparr>" ex_config "ex_upstream None"]
  by (simp add: ex_config_def)


text \<open>
  C10. On a store that satisfies its constraints, and with a random sort that is a
  permutation, the cards in an answer of GET /api/cards/daily are pairwise distinct
  (they have pairwise distinct ids), whether they are read from the stored assignments
  or freshly selected, from the unseen cards or from the whole deck.
\<close>

theorem daily_cards_distinct:
  assumes "store_ok st" and "permutes (shuffle env)"
  shows "distinct (map c_id (returned_cards (fst (get_cards_daily env st q))))
       \<and> distinct (returned_cards (fst (get_cards_daily env st q)))"
proof -
  have "distinct (map c_id (returned_cards (fst (get_cards_daily env st q))))"
  proof (cases q)
    case None
    then show ?thesis
      by (simp add: get_cards_daily_def returned_cards_def json_def)
  next
    case (Some u)
    show ?thesis
    proof (cases "dailyCard_findMany u (utc_day_start (now env))
        (utc_day_start (now env) + 86400000) st")
      case None
      with Some show ?thesis
        by (simp add: cards_daily_unfold returned_cards_def json_def)
    next
      case (Some daily)
      have "list_all2 (\<lambda>d c. c_id c = dc_cardId d) (assignments_for u (now env) st)
          (map snd daily)"
        using findMany_rows [OF Some] by (simp add: list_all2_map2 list_all2_mono)
      then have "map c_id (map snd daily) = map dc_cardId (assignments_for u (now env) st)"
        by (induction rule: list_all2_induct) simp_all
      then have memo: "distinct (map c_id (map snd daily))"
        using assignments_cardIds_distinct [OF assms(1)] by simp
      show ?thesis
        using \<open>q = Some u\<close> Some memo selected_facts(1) [OF assms, of u]
        by (simp add: cards_daily_unfold returned_cards_def json_def split: option.splits)
    qed
  qed
  then show ?thesis
    by (simp add: distinct_map)
qed

theorem daily_cards_distinct_witness:
  "distinct (map c_id (returned_cards
      (fst (get_cards_daily ex_env (ex_store_assigned True) (Some ''u1'')))))
   \<and> distinct (returned_cards
      (fst (get_cards_daily ex_env (ex_store_assigned True) (Some ''u1''))))"
  by (rule daily_cards_distinct)
    (simp_all add: store_ok_def ex_store_assigned_def ex_store_def ex_card_def
      dailyCard_key_def permutes_def ex_env_def)

end
